theory Spec2Isabelle
  imports Main
begin

section \<open>Values, errors and the documents on disk\<close>

text \<open>
  The module \<open>xl2pl.py\<close> has two functions, \<open>load_excel\<close> and \<open>save_excel\<close>.
  Both talk to the spreadsheet library through a handful of calls (open, iterate the
  rows of a sheet, delete and create a sheet, append a row, save). The embedding keeps
  the control flow of the two functions as it is written and gives every \<open>raise\<close> a
  branch of its own.

  A cell is modelled by its value, the only attribute of a cell that the code reads:
  \<open>None\<close> for an empty cell, a string, a number or a truth value. Strings are lists of
  characters; a character stands for a code point below 256.
\<close>

datatype pyval = VNone | VStr string | VInt int | VBool bool

text \<open>
  The exceptions that leave the two functions. The messages of the source are Russian
  sentences; each is abbreviated here to an ASCII tag naming the place that raises.
\<close>

datatype error =
    ValueError string
  | RuntimeError string
  | AssertionError string
  | TypeError
  | IndexError
  | LibraryError

type_synonym row = "pyval list"
type_synonym sheet = "row list"
type_synonym workbook = "(string \<times> sheet) list"

datatype disk_file = Book workbook | NotBook

record world =
  files :: "string \<rightharpoonup> disk_file"
  writable :: "string \<Rightarrow> bool"

definition path_exists :: "world \<Rightarrow> string \<Rightarrow> bool" where
  "path_exists w p = (case files w p of None \<Rightarrow> False | Some f \<Rightarrow> True)"

text \<open>
  \<open>oxl.open(path)\<close>: the document stored under the name it is given, an exception of
  the library when there is none or the file is no spreadsheet document.
\<close>

definition oxl_open :: "world \<Rightarrow> string \<Rightarrow> error + workbook" where
  "oxl_open w p =
     (case files w p of
        None \<Rightarrow> Inl LibraryError
      | Some NotBook \<Rightarrow> Inl LibraryError
      | Some (Book wb) \<Rightarrow> Inr wb)"

section \<open>Paths: \<open>pathlib.Path(...).suffix\<close>\<close>

text \<open>
  \<open>Path(s).name\<close> is the last component of \<open>s\<close> once empty components and single
  dots are dropped; \<open>suffix\<close> is \<open>name[i:]\<close> for \<open>i = name.rfind('.')\<close> when
  \<open>0 < i < len(name) - 1\<close>, and the empty string otherwise.
\<close>

fun split_sep :: "char \<Rightarrow> string \<Rightarrow> string \<Rightarrow> string list" where
  "split_sep sep acc [] = [rev acc]"
| "split_sep sep acc (c # cs) =
     (if c = sep then rev acc # split_sep sep [] cs else split_sep sep (c # acc) cs)"

definition path_name :: "string \<Rightarrow> string" where
  "path_name s =
     (case filter (\<lambda>x. x \<noteq> [] \<and> x \<noteq> ''.'') (split_sep CHR ''/'' [] s) of
        [] \<Rightarrow> []
      | p # ps \<Rightarrow> last (p # ps))"

fun rfind :: "char \<Rightarrow> string \<Rightarrow> nat option" where
  "rfind c [] = None"
| "rfind c (x # xs) =
     (case rfind c xs of
        Some i \<Rightarrow> Some (Suc i)
      | None \<Rightarrow> (if x = c then Some 0 else None))"

definition name_suffix :: "string \<Rightarrow> string" where
  "name_suffix name =
     (case rfind CHR ''.'' name of
        None \<Rightarrow> []
      | Some i \<Rightarrow> (if 0 < i \<and> i + 1 < length name then drop i name else []))"

definition suffix :: "string \<Rightarrow> string" where
  "suffix s = name_suffix (path_name s)"

section \<open>\<open>save_excel\<close>\<close>

text \<open>
  The destination argument: a \<open>str\<close>, a \<open>pathlib.Path\<close> (both carry the path text) or
  anything else, such as a writable stream.
\<close>

datatype destination = DestStr string | DestPath string | DestOther

text \<open>
  A data frame is what \<open>df.to_dicts()\<close> yields: the rows in order, each an ordered
  mapping from column name to value.
\<close>

type_synonym dataframe = "(string \<times> pyval) list list"

text \<open>The operations performed on the opened document, in the order they happen.\<close>

datatype wb_op = DelSheet string | CreateSheet string | AppendRow string row | Save string

record outcome =
  result :: "error + dataframe"
  ops :: "wb_op list"
  after :: world

definition sheetnames :: "workbook \<Rightarrow> string list" where
  "sheetnames wb = map fst wb"

definition del_sheet :: "workbook \<Rightarrow> string \<Rightarrow> workbook" where
  "del_sheet wb name = filter (\<lambda>s. fst s \<noteq> name) wb"

definition create_sheet :: "workbook \<Rightarrow> string \<Rightarrow> workbook" where
  "create_sheet wb name = wb @ [(name, [])]"

definition sheet_append :: "workbook \<Rightarrow> string \<Rightarrow> row \<Rightarrow> workbook" where
  "sheet_append wb name r = map (\<lambda>s. if fst s = name then (fst s, snd s @ [r]) else s) wb"

text \<open>
  The loop over \<open>df.to_dicts()\<close>: the first row emits its keys, then every row emits
  its values.
\<close>

fun append_rows :: "string \<Rightarrow> bool \<Rightarrow> dataframe \<Rightarrow> workbook \<times> wb_op list \<Rightarrow> workbook \<times> wb_op list" where
  "append_rows name head_wrot [] acc = acc"
| "append_rows name head_wrot (r # rs) (wb, log) =
     (let (wb1, log1) =
            (if \<not> head_wrot
             then (sheet_append wb name (map (VStr \<circ> fst) r),
                   log @ [AppendRow name (map (VStr \<circ> fst) r)])
             else (wb, log));
          wb2 = sheet_append wb1 name (map snd r);
          log2 = log1 @ [AppendRow name (map snd r)]
      in append_rows name True rs (wb2, log2))"

text \<open>Lines 188 to 198: the checks on the destination.\<close>

definition check_destination :: "destination \<Rightarrow> error + string" where
  "check_destination d =
     (case d of
        DestOther \<Rightarrow> Inl (ValueError ''path: not a str or Path'')
      | DestStr p \<Rightarrow>
          (if suffix p = ''.xlsx'' then Inl (ValueError ''path: suffix'') else Inr p)
      | DestPath p \<Rightarrow>
          (if suffix p = ''.xlsx'' then Inl (ValueError ''path: suffix'') else Inr p))"

text \<open>Lines 206 to 244: the body run on the acquired document.\<close>

definition write_sheet ::
  "world \<Rightarrow> string \<Rightarrow> workbook \<Rightarrow> dataframe \<Rightarrow> string option \<Rightarrow> string \<Rightarrow> outcome" where
  "write_sheet w path wb df sheet_name if_sheet_exists =
     (let sheets = sheetnames wb;
          name = (case sheet_name of
                    None \<Rightarrow> ''Sheet''
                  | Some n \<Rightarrow> (if n = [] then ''Sheet'' else n))
      in
      case (if name \<in> set sheets
            then (if if_sheet_exists \<notin> {''overwrite'', ''assert'', ''skip''}
                  then Inl (Inl (ValueError ''if_sheet_exists''))
                  else if if_sheet_exists = ''overwrite''
                  then Inr (del_sheet wb name, [DelSheet name])
                  else if if_sheet_exists = ''assert''
                  then Inl (Inl (AssertionError ''sheet exists''))
                  else Inl (Inr df))
            else Inr (wb, [])) of
        Inl early \<Rightarrow> \<lparr>result = early, ops = [], after = w\<rparr>
      | Inr (wb0, log0) \<Rightarrow>
          (let wb1 = create_sheet wb0 name;
               log1 = log0 @ [CreateSheet name];
               (wb2, log2) = append_rows name False df (wb1, log1)
           in
           if writable w path
           then \<lparr>result = Inr df, ops = log2 @ [Save path],
                 after = w\<lparr>files := (files w)(path \<mapsto> Book wb2)\<rparr>\<rparr>
           else \<lparr>result = Inl (RuntimeError ''save''), ops = log2, after = w\<rparr>))"

definition save_excel ::
  "world \<Rightarrow> destination \<Rightarrow> dataframe \<Rightarrow> string option \<Rightarrow> string \<Rightarrow> outcome" where
  "save_excel w path df sheet_name if_sheet_exists =
     (case check_destination path of
        Inl e \<Rightarrow> \<lparr>result = Inl e, ops = [], after = w\<rparr>
      | Inr p \<Rightarrow>
          (if \<not> path_exists w p
           then write_sheet w p [] df sheet_name if_sheet_exists
           else (case oxl_open w p of
                   Inl e \<Rightarrow> \<lparr>result = Inl e, ops = [], after = w\<rparr>
                 | Inr wb \<Rightarrow> write_sheet w p wb df sheet_name if_sheet_exists)))"

section \<open>\<open>load_excel\<close>: arguments\<close>

text \<open>
  The \<open>file\<close> argument: a \<open>str\<close>, a \<open>pathlib.Path\<close>, one of the two stream classes the
  code tests for, or anything else. The code never reads a stream it is given, so the
  stream constructors carry nothing.
\<close>

datatype source = SrcStr string | SrcPath string | SrcBufferedReader | SrcBytesIO | SrcOther

datatype selector = SheetInt int | SheetStr string | SheetOther

text \<open>
  \<open>zero_cell\<close> and \<open>take_cols\<close>: omitted, a string, an iterable of strings, a callable,
  or anything else. A callable is modelled as a total function of the cell value.
\<close>

datatype anchor_arg = ZNone | ZStr string | ZSeq "string list" | ZFun "pyval \<Rightarrow> bool" | ZOther

datatype column_arg = TNone | TStr string | TSeq "string list" | TFun "pyval \<Rightarrow> bool" | TOther

text \<open>Lines 57 to 76. The name given to \<open>oxl.open\<close> later is the value of \<open>path\<close>.\<close>

definition check_file :: "world \<Rightarrow> source \<Rightarrow> error + string" where
  "check_file w file =
     (let path = (case file of SrcStr s \<Rightarrow> Some s | _ \<Rightarrow> None)
      in
      if file = SrcBufferedReader \<or> file = SrcBytesIO then Inr ''<file-like>''
      else (case path of
              None \<Rightarrow> Inl (ValueError ''file: type'')
            | Some p \<Rightarrow>
                (if suffix p \<notin> {''xlsx'', ''xls''} then Inl (ValueError ''file: suffix'')
                 else if \<not> path_exists w p then Inl (ValueError ''file: not found'')
                 else Inr p)))"

text \<open>Lines 78 to 87.\<close>

definition make_test_cell :: "anchor_arg \<Rightarrow> error + (pyval \<Rightarrow> bool)" where
  "make_test_cell zero_cell =
     (case zero_cell of
        ZNone \<Rightarrow> Inr (\<lambda>cell. True)
      | ZStr z \<Rightarrow> Inr (\<lambda>cell. cell = VStr z)
      | ZSeq zs \<Rightarrow> Inr (\<lambda>cell. cell \<in> VStr ` set zs)
      | ZFun f \<Rightarrow> Inr f
      | ZOther \<Rightarrow> Inl (ValueError ''test_cell''))"

text \<open>
  Lines 89 to 98. \<open>re_match pattern text\<close> stands for the truth value of
  \<open>re.match(pattern, text)\<close>, which raises \<open>TypeError\<close> on a value that is no string.
\<close>

definition make_test_cols ::
  "(string \<Rightarrow> string \<Rightarrow> bool) \<Rightarrow> column_arg \<Rightarrow> error + (pyval \<Rightarrow> error + bool)" where
  "make_test_cols re_match take_cols =
     (case take_cols of
        TNone \<Rightarrow> Inr (\<lambda>col. Inr True)
      | TStr pat \<Rightarrow>
          Inr (\<lambda>col. case col of VStr t \<Rightarrow> Inr (re_match pat t) | _ \<Rightarrow> Inl TypeError)
      | TSeq cs \<Rightarrow> Inr (\<lambda>col. Inr (col \<in> VStr ` set cs))
      | TFun f \<Rightarrow> Inr (\<lambda>col. Inr (f col))
      | TOther \<Rightarrow> Inl (ValueError ''take_cols''))"

text \<open>Lines 115 to 128. The sheet is returned with its title.\<close>

definition resolve_sheet :: "workbook \<Rightarrow> selector \<Rightarrow> error + (string \<times> sheet)" where
  "resolve_sheet book sel =
     (case sel of
        SheetInt k \<Rightarrow>
          (case book of
             [] \<Rightarrow> Inl (ValueError ''sheet: load'')
           | s # ss \<Rightarrow> Inr s)
      | SheetStr n \<Rightarrow>
          (case find (\<lambda>s. fst s = n) book of
             None \<Rightarrow> Inl (ValueError ''sheet: load'')
           | Some s \<Rightarrow> Inr s)
      | SheetOther \<Rightarrow> Inl (ValueError ''sheet''))"

text \<open>
  \<open>_sheet.iter_rows(min_row=m)\<close> of the library: row numbers start at 1, and a
  \<open>min_row\<close> of 0 counts as 1.
\<close>

definition iter_rows :: "sheet \<Rightarrow> int \<Rightarrow> row list" where
  "iter_rows sh min_row = drop (nat ((if min_row = 0 then 1 else min_row) - 1)) sh"

section \<open>\<open>load_excel\<close>: the scan\<close>

text \<open>\<open>row[i]\<close> for an index that is never negative.\<close>

definition index :: "'a list \<Rightarrow> nat \<Rightarrow> error + 'a" where
  "index xs i = (if i < length xs then Inr (xs ! i) else Inl IndexError)"

text \<open>
  \<open>re_w.sub(" ", old).strip()\<close>: the characters that \<open>\s\<close> and \<open>strip\<close> take for
  white space, among the code points below 256.
\<close>

definition is_space :: "char \<Rightarrow> bool" where
  "is_space c = (of_char c \<in> {9, 10, 11, 12, 13, 28, 29, 30, 31, 32, 133, 160 :: nat})"

function re_w_sub :: "string \<Rightarrow> string" where
  "re_w_sub [] = []"
| "re_w_sub (c # cs) =
     (if is_space c then CHR '' '' # re_w_sub (dropWhile is_space cs) else c # re_w_sub cs)"
  by pat_completeness auto
termination
  by (relation "measure length") (auto simp: le_imp_less_Suc length_dropWhile_le)

definition strip :: "string \<Rightarrow> string" where
  "strip t = rev (dropWhile is_space (rev (dropWhile is_space t)))"

definition normalize :: "pyval \<Rightarrow> error + pyval" where
  "normalize old = (case old of VStr t \<Rightarrow> Inr (VStr (strip (re_w_sub t))) | _ \<Rightarrow> Inl TypeError)"

text \<open>A list comprehension whose body may raise: the first failure ends it.\<close>

fun traverse :: "('a \<Rightarrow> error + 'b) \<Rightarrow> 'a list \<Rightarrow> error + 'b list" where
  "traverse f [] = Inr []"
| "traverse f (x # xs) =
     (case f x of
        Inl e \<Rightarrow> Inl e
      | Inr y \<Rightarrow> (case traverse f xs of Inl e \<Rightarrow> Inl e | Inr ys \<Rightarrow> Inr (y # ys)))"

text \<open>Lines 133 to 137: the first cell of the row that passes \<open>test_cell\<close>.\<close>

fun find_anchor :: "(pyval \<Rightarrow> bool) \<Rightarrow> row \<Rightarrow> nat option" where
  "find_anchor test_cell [] = None"
| "find_anchor test_cell (cell # cells) =
     (if test_cell cell then Some 0 else map_option Suc (find_anchor test_cell cells))"

text \<open>
  Lines 144 to 146: \<open>[i_col + i for i, cell in enumerate(row) if test_cols(cell.value)]\<close>,
  with \<open>i\<close> the position the enumeration has reached.
\<close>

fun select_idxs :: "(pyval \<Rightarrow> error + bool) \<Rightarrow> nat \<Rightarrow> nat \<Rightarrow> row \<Rightarrow> error + nat list" where
  "select_idxs test_cols i_col i [] = Inr []"
| "select_idxs test_cols i_col i (cell # cells) =
     (case test_cols cell of
        Inl e \<Rightarrow> Inl e
      | Inr keep \<Rightarrow>
          (case select_idxs test_cols i_col (Suc i) cells of
             Inl e \<Rightarrow> Inl e
           | Inr js \<Rightarrow> Inr (if keep then (i_col + i) # js else js)))"

record scan_state =
  read_immediately :: bool
  head_read :: bool
  i_row :: nat
  i_col :: nat
  idxs :: "nat list"
  rows :: "row list"

datatype loop = Raised error | Broke scan_state | Running scan_state

text \<open>Lines 131 to 137: the row counter and the search for the anchor.\<close>

definition locate :: "(pyval \<Rightarrow> bool) \<Rightarrow> scan_state \<Rightarrow> row \<Rightarrow> scan_state" where
  "locate test_cell st0 row =
     (let st1 = st0\<lparr>i_row := i_row st0 + 1\<rparr>
      in
      if \<not> read_immediately st1
      then (case find_anchor test_cell row of
              None \<Rightarrow> st1
            | Some i \<Rightarrow> st1\<lparr>i_col := i, read_immediately := True\<rparr>)
      else st1)"

text \<open>Lines 131 to 156: one turn of the loop over the rows.\<close>

definition scan_row ::
  "(pyval \<Rightarrow> bool) \<Rightarrow> (pyval \<Rightarrow> error + bool) \<Rightarrow> scan_state \<Rightarrow> row \<Rightarrow> loop" where
  "scan_row test_cell test_cols st0 row =
     (let st = locate test_cell st0 row
      in
      if \<not> read_immediately st then Running st
      else (case index row (i_col st) of
              Inl e \<Rightarrow> Raised e
            | Inr anchor \<Rightarrow>
                (if anchor \<noteq> VNone
                 then (case (if \<not> head_read st
                             then select_idxs test_cols (i_col st) 0 row
                             else Inr (idxs st)) of
                         Inl e \<Rightarrow> Raised e
                       | Inr js \<Rightarrow>
                           (case traverse (index row) js of
                              Inl e \<Rightarrow> Raised e
                            | Inr data \<Rightarrow>
                                (if \<not> head_read st
                                 then (case traverse normalize data of
                                         Inl e \<Rightarrow> Raised e
                                       | Inr hdr \<Rightarrow>
                                           Running (st\<lparr>idxs := js, head_read := True,
                                                       rows := rows st @ [hdr]\<rparr>))
                                 else Running (st\<lparr>idxs := js, rows := rows st @ [data]\<rparr>))))
                 else Broke st)))"

fun scan :: "(pyval \<Rightarrow> bool) \<Rightarrow> (pyval \<Rightarrow> error + bool) \<Rightarrow> scan_state \<Rightarrow> row list \<Rightarrow> loop" where
  "scan test_cell test_cols st [] = Running st"
| "scan test_cell test_cols st (row # rest) =
     (case scan_row test_cell test_cols st row of
        Raised e \<Rightarrow> Raised e
      | Broke st' \<Rightarrow> Broke st'
      | Running st' \<Rightarrow> scan test_cell test_cols st' rest)"

text \<open>Lines 103 to 106 and 113: the variables before the loop.\<close>

definition initial :: "anchor_arg \<Rightarrow> scan_state" where
  "initial zero_cell =
     \<lparr>read_immediately = (case zero_cell of ZNone \<Rightarrow> True | _ \<Rightarrow> False), head_read = False, i_row = 0, i_col = 0,
      idxs = [], rows = []\<rparr>"

section \<open>\<open>load_excel\<close>: the footer and the whole function\<close>

text \<open>\<open>rows[:n]\<close> for an integer \<open>n\<close>: a negative \<open>n\<close> counts from the end.\<close>

definition slice_to :: "'a list \<Rightarrow> int \<Rightarrow> 'a list" where
  "slice_to xs n = (if n < 0 then take (nat (int (length xs) + n)) xs else take (nat n) xs)"

text \<open>
  Lines 158 to 163: the guard, then the rows handed to \<open>writer.writerows\<close>. The text
  the writer produces and its parsing by the table library are not part of the model.
\<close>

definition trim_foot :: "row list \<Rightarrow> int option \<Rightarrow> error + row list" where
  "trim_foot rs skip_foot =
     (case skip_foot of
        None \<Rightarrow> Inr rs
      | Some n \<Rightarrow>
          (if int (length rs) < 2 \<and> n > int (length rs) - 1
           then Inl (ValueError ''skip_foot'')
           else Inr (slice_to rs n)))"

text \<open>Lines 130 to 163 on the rows the sheet yields.\<close>

definition collect_rows ::
  "(pyval \<Rightarrow> bool) \<Rightarrow> (pyval \<Rightarrow> error + bool) \<Rightarrow> scan_state \<Rightarrow> row list \<Rightarrow> int option
     \<Rightarrow> error + row list" where
  "collect_rows test_cell test_cols st0 rs skip_foot =
     (case scan test_cell test_cols st0 rs of
        Raised e \<Rightarrow> Inl e
      | Broke st \<Rightarrow> trim_foot (rows st) skip_foot
      | Running st \<Rightarrow> trim_foot (rows st) skip_foot)"

text \<open>
  Lines 57 to 130: everything before the loop. It yields the two predicates and the
  rows the loop will visit.
\<close>

definition prepare ::
  "(string \<Rightarrow> string \<Rightarrow> bool) \<Rightarrow> world \<Rightarrow> source \<Rightarrow> selector \<Rightarrow> anchor_arg \<Rightarrow> int option
     \<Rightarrow> column_arg \<Rightarrow> error + ((pyval \<Rightarrow> bool) \<times> (pyval \<Rightarrow> error + bool) \<times> row list)" where
  "prepare re_match w file sheet zero_cell skip_rows take_cols =
     (case check_file w file of
        Inl e \<Rightarrow> Inl e
      | Inr path \<Rightarrow>
     (case make_test_cell zero_cell of
        Inl e \<Rightarrow> Inl e
      | Inr test_cell \<Rightarrow>
     (case make_test_cols re_match take_cols of
        Inl e \<Rightarrow> Inl e
      | Inr test_cols \<Rightarrow>
     (case oxl_open w path of
        Inl e \<Rightarrow> Inl (RuntimeError ''open'')
      | Inr book \<Rightarrow>
     (case resolve_sheet book sheet of
        Inl e \<Rightarrow> Inl e
      | Inr sh \<Rightarrow>
          Inr (test_cell, test_cols,
               iter_rows (snd sh) (case skip_rows of None \<Rightarrow> 0 | Some n \<Rightarrow> n)))))))"

definition load_excel ::
  "(string \<Rightarrow> string \<Rightarrow> bool) \<Rightarrow> world \<Rightarrow> source \<Rightarrow> selector \<Rightarrow> anchor_arg \<Rightarrow> int option
     \<Rightarrow> int option \<Rightarrow> column_arg \<Rightarrow> error + row list" where
  "load_excel re_match w file sheet zero_cell skip_rows skip_foot take_cols =
     (case prepare re_match w file sheet zero_cell skip_rows take_cols of
        Inl e \<Rightarrow> Inl e
      | Inr (test_cell, test_cols, rs) \<Rightarrow>
          collect_rows test_cell test_cols (initial zero_cell) rs skip_foot)"

section \<open>Vocabulary of the statements\<close>

text \<open>
  The values of a row at a list of indices, every index lying within the row, and the
  values that are strings.
\<close>

definition cells_at :: "nat list \<Rightarrow> row \<Rightarrow> row" where
  "cells_at js r = map (\<lambda>i. r ! i) js"

definition within :: "nat list \<Rightarrow> row \<Rightarrow> bool" where
  "within js r = list_all (\<lambda>i. i < length r) js"

definition is_str :: "pyval \<Rightarrow> bool" where
  "is_str v = (case v of VStr t \<Rightarrow> True | _ \<Rightarrow> False)"

section \<open>Example documents\<close>

text \<open>
  A document of several sheets. In \<open>Data\<close> the table starts in the second column,
  after a column of remarks. \<open>Gap\<close> has a row with an empty first cell between two
  rows of data. \<open>Spaces\<close> has runs of white space in its header and in its data.
  \<open>Shifted\<close> and \<open>Mixed\<close> have a number and an empty cell in the header row.
\<close>

definition demo_book :: workbook where
  "demo_book =
     [(''Data'', [[VStr ''junk'', VStr ''Name'', VStr ''Age''],
                  [VStr ''x'', VStr ''Ann'', VStr ''30'']]),
      (''Other'', [[VStr ''Key''], [VStr ''v'']]),
      (''Gap'', [[VStr ''Name'', VStr ''Age''],
                 [VStr ''Ann'', VStr ''30''],
                 [VNone, VStr ''total''],
                 [VStr ''Bob'', VStr ''40'']]),
      (''Spaces'', [[VStr ''Full   Name'', VStr '' Age ''],
                    [VStr ''Ann   Lee'', VStr '' 30 '']]),
      (''Shifted'', [[VStr ''junk'', VStr ''Name'', VInt 2024]]),
      (''Mixed'', [[VStr ''Name'', VNone, VInt 2024],
                   [VStr ''Ann'', VStr ''a'', VStr ''b'']])]"

text \<open>
  The world in which \<open>oxl.open\<close> yields \<open>demo_book\<close> for the name that \<open>load_excel\<close>
  passes when it is given a stream.
\<close>

definition demo_world :: world where
  "demo_world = \<lparr>files = [''<file-like>'' \<mapsto> Book demo_book], writable = (\<lambda>p. True)\<rparr>"

text \<open>The world in which \<open>demo_book\<close> is stored as \<open>book.xlsx\<close>.\<close>

definition book_world :: world where
  "book_world = \<lparr>files = [''book.xlsx'' \<mapsto> Book demo_book], writable = (\<lambda>p. True)\<rparr>"

section \<open>The checks on paths\<close>

lemma suffix_out_xlsx: "suffix ''out.xlsx'' = ''.xlsx''"
  by (simp add: suffix_def path_name_def name_suffix_def)

lemma suffix_out_csv: "suffix ''out.csv'' = ''.csv''"
  by (simp add: suffix_def path_name_def name_suffix_def)

lemma suffix_data_xlsx: "suffix ''data.xlsx'' = ''.xlsx''"
  by (simp add: suffix_def path_name_def name_suffix_def)

lemma suffix_book_xlsx: "suffix ''book.xlsx'' = ''.xlsx''"
  by (simp add: suffix_def path_name_def name_suffix_def)

text \<open>The check of line 194 on a string, for every path.\<close>

lemma check_destination_str:
  "check_destination (DestStr p) =
     (if suffix p = ''.xlsx'' then Inl (ValueError ''path: suffix'') else Inr p)"
  by (simp add: check_destination_def)

text \<open>
  Claim C1 says that \<open>save_excel\<close> accepts every destination ending in \<open>.xlsx\<close> and
  raises a usage error for every other path. The test of line 194 is the other way
  round: the destination \<open>out.xlsx\<close> is refused with the \<open>ValueError\<close> whose message
  asks for that very suffix, whatever the other arguments are and before any document
  is opened, and the destination \<open>out.csv\<close> passes the checks.
\<close>

theorem save_excel_refuses_xlsx:
  "save_excel w (DestStr ''out.xlsx'') df sheet_name if_sheet_exists =
     \<lparr>result = Inl (ValueError ''path: suffix''), ops = [], after = w\<rparr>
   \<and> check_destination (DestStr ''out.csv'') = Inr ''out.csv''"
  by (simp add: save_excel_def check_destination_def suffix_out_xlsx suffix_out_csv)

text \<open>The suffix of a path is empty or starts with a dot, so line 70 refuses every string.\<close>

lemma rfind_Some: "rfind c xs = Some i \<Longrightarrow> i < length xs \<and> xs ! i = c"
proof (induction xs arbitrary: i)
  case Nil
  then show ?case by simp
next
  case (Cons x xs)
  then show ?case by (cases "rfind c xs") (auto split: if_splits)
qed

lemma name_suffix_shape: "name_suffix n = [] \<or> (\<exists>t. name_suffix n = CHR ''.'' # t)"
proof (cases "rfind CHR ''.'' n")
  case None
  then show ?thesis by (simp add: name_suffix_def)
next
  case (Some i)
  from rfind_Some [OF Some] have "drop i n = CHR ''.'' # drop (Suc i) n"
    by (simp add: Cons_nth_drop_Suc [symmetric])
  with Some show ?thesis by (simp add: name_suffix_def)
qed

lemma suffix_never_bare: "suffix p \<noteq> ''xlsx'' \<and> suffix p \<noteq> ''xls''"
  using name_suffix_shape [of "path_name p"] by (auto simp: suffix_def)

lemma check_file_refuses_every_str: "check_file w (SrcStr p) = Inl (ValueError ''file: suffix'')"
  using suffix_never_bare [of p] by (simp add: check_file_def)

text \<open>
  Claim C3 says that \<open>load_excel\<close> accepts every existing string path whose extension
  is \<open>xlsx\<close> or \<open>xls\<close>. Line 70 compares the suffix, which starts with its dot, with the
  two extensions written without one: \<open>data.xlsx\<close> is refused with the \<open>ValueError\<close>
  of line 71 in every world, whether the file exists or not.
\<close>

theorem load_excel_refuses_xlsx_path:
  "load_excel re_match w (SrcStr ''data.xlsx'') sheet zero_cell skip_rows skip_foot take_cols =
     Inl (ValueError ''file: suffix'')"
  by (simp add: load_excel_def prepare_def check_file_def suffix_data_xlsx)

text \<open>The conflict policy \<open>skip\<close>, once the body of \<open>save_excel\<close> is reached.\<close>

lemma write_sheet_skip:
  assumes "name \<noteq> []" and "name \<in> set (sheetnames wb)"
  shows "write_sheet w path wb df (Some name) ''skip'' = \<lparr>result = Inr df, ops = [], after = w\<rparr>"
  using assms by (simp add: write_sheet_def)

text \<open>
  Claim C8 says that for every existing destination document that already holds the
  target sheet, \<open>save_excel\<close> with the policy \<open>skip\<close> returns the table and raises
  nothing. The document stored as \<open>book.xlsx\<close> holds the sheet \<open>Data\<close>, yet the call
  ends in the \<open>ValueError\<close> of line 195: the check of line 194 refuses the destination
  before the document is opened. Nothing is written, which is the only part of the
  claim the call keeps.
\<close>

theorem save_excel_skip_on_xlsx_raises:
  "save_excel book_world (DestStr ''book.xlsx'') df (Some ''Data'') ''skip'' =
     \<lparr>result = Inl (ValueError ''path: suffix''), ops = [], after = book_world\<rparr>"
  by (simp add: save_excel_def check_destination_def suffix_book_xlsx)

section \<open>The sheet selector\<close>

text \<open>An integer selector yields the first sheet of a document that has one.\<close>

lemma resolve_sheet_int: "resolve_sheet (s # ss) (SheetInt k) = Inr s"
  by (simp add: resolve_sheet_def)

text \<open>
  Claim C4 says that an integer selector \<open>k\<close> resolves to the sheet at index \<open>k\<close>, and
  that a failed resolution is an error. Line 118 reads \<open>book.worksheets[0]\<close>: in the
  document of two sheets the selector 1 resolves to the first sheet, as the selector 0
  does, and the selector 7, which names no sheet, resolves to it as well.
\<close>

theorem resolve_sheet_ignores_index:
  "fst (hd demo_book) = ''Data''
   \<and> fst (demo_book ! 1) = ''Other''
   \<and> resolve_sheet demo_book (SheetInt 1) = Inr (hd demo_book)
   \<and> resolve_sheet demo_book (SheetInt 0) = Inr (hd demo_book)
   \<and> resolve_sheet demo_book (SheetInt 7) = Inr (hd demo_book)"
  by (simp add: resolve_sheet_def demo_book_def)

section \<open>The footer\<close>

text \<open>
  Claim C2 says that a footer count \<open>n\<close> removes the last \<open>n\<close> collected rows. Line 163
  writes \<open>rows[:skip_foot]\<close>, the first \<open>n\<close> rows: of a header and three data rows, the
  count 1 leaves the header alone.
\<close>

theorem trim_foot_keeps_first_rows:
  "trim_foot [h, r1, r2, r3] (Some 1) = Inr [h]"
  by (simp add: trim_foot_def slice_to_def)

text \<open>
  Claim C5 says that a footer count of at least the number of collected rows minus one
  raises a configuration error, also when more than one row was collected. The guard
  of line 158 asks for fewer than two rows: with a header and two data rows the count
  5 raises nothing, and all three rows are written.
\<close>

theorem trim_foot_guard_misses:
  "trim_foot [h, r1, r2] (Some 5) = Inr [h, r1, r2]"
  by (simp add: trim_foot_def slice_to_def)

section \<open>The columns of the header row\<close>

text \<open>
  Claim C6 says that the column predicate is tested on the header fields from the
  anchor column on, and that the field tested is the one whose index is kept. Line 145
  enumerates the whole row from its first cell and adds the anchor column to every
  position: with the anchor \<open>Name\<close> in the second column and the columns \<open>[Name]\<close>
  asked for, the field that passes the test is \<open>Name\<close> and the column kept is the one
  of \<open>Age\<close>.
\<close>

theorem load_excel_keeps_shifted_column:
  "load_excel re_match demo_world SrcBytesIO (SheetInt 0) (ZStr ''Name'') None None
     (TSeq [''Name'']) = Inr [[VStr ''Age''], [VStr ''30'']]"
  by (simp add: load_excel_def prepare_def check_file_def make_test_cell_def make_test_cols_def
      oxl_open_def demo_world_def demo_book_def resolve_sheet_def iter_rows_def collect_rows_def
      initial_def scan_row_def locate_def index_def normalize_def strip_def is_space_def
      trim_foot_def)

section \<open>The loop over the rows\<close>

text \<open>
  Once everything before the loop has succeeded, \<open>load_excel\<close> is the loop followed
  by the footer.
\<close>

lemma load_excel_collect:
  assumes "prepare re_match w file sheet zero_cell skip_rows take_cols = Inr (test_cell, test_cols, rs)"
  shows "load_excel re_match w file sheet zero_cell skip_rows skip_foot take_cols =
         collect_rows test_cell test_cols (initial zero_cell) rs skip_foot"
  using assms by (simp add: load_excel_def)

lemma scan_append:
  "scan test_cell test_cols st before = Running st1 \<Longrightarrow>
   scan test_cell test_cols st (before @ rest) = scan test_cell test_cols st1 rest"
proof (induction before arbitrary: st)
  case Nil
  then show ?case by simp
next
  case (Cons r before)
  then show ?case by (cases "scan_row test_cell test_cols st r") simp_all
qed

lemma rows_locate: "rows (locate test_cell st row) = rows st"
  by (simp add: locate_def Let_def split: option.splits)

lemma head_read_locate: "head_read (locate test_cell st row) = head_read st"
  by (simp add: locate_def Let_def split: option.splits)

lemma idxs_locate: "idxs (locate test_cell st row) = idxs st"
  by (simp add: locate_def Let_def split: option.splits)

lemma locate_read: "read_immediately st \<Longrightarrow> read_immediately (locate test_cell st row) \<and> i_col (locate test_cell st row) = i_col st"
  by (simp add: locate_def Let_def)

lemma scan_row_empty_anchor:
  assumes "read_immediately (locate test_cell st row)"
    and "index row (i_col (locate test_cell st row)) = Inr VNone"
  shows "scan_row test_cell test_cols st row = Broke (locate test_cell st row)"
  using assms by (simp add: scan_row_def Let_def)

lemma index_inside: "i < length xs \<Longrightarrow> index xs i = Inr (xs ! i)"
  by (simp add: index_def)

lemma index_outside: "\<not> i < length xs \<Longrightarrow> index xs i = Inl IndexError"
  by (simp add: index_def)

lemma traverse_index:
  "traverse (index r) js = (if within js r then Inr (cells_at js r) else Inl IndexError)"
proof (induction js)
  case Nil
  then show ?case by (simp add: within_def cells_at_def)
next
  case (Cons j js)
  show ?case
  proof (cases "j < length r")
    case True
    with Cons show ?thesis by (simp add: index_inside within_def cells_at_def)
  next
    case False
    then show ?thesis by (simp add: index_outside within_def)
  qed
qed

text \<open>What precedes the loop, for a stream and a sheet of the example document.\<close>

lemma prepare_demo:
  "prepare re_match demo_world SrcBytesIO (SheetStr name) ZNone None TNone =
     (case find (\<lambda>s. fst s = name) demo_book of
        None \<Rightarrow> Inl (ValueError ''sheet: load'')
      | Some sh \<Rightarrow> Inr (\<lambda>cell. True, \<lambda>col. Inr True, snd sh))"
  by (simp add: prepare_def check_file_def make_test_cell_def make_test_cols_def oxl_open_def
      demo_world_def resolve_sheet_def iter_rows_def split: option.splits)

text \<open>
  Claim C7: once \<open>load_excel\<close> is in data-collection mode and meets a row whose cell in
  the anchor column is empty, the scan ends at once and no later row reaches the
  result. Here \<open>before\<close> are the rows visited so far, left in the state \<open>st\<close>; the
  row \<open>row\<close> is met in data-collection mode (the anchor was found earlier or is found
  in this row) and its anchor cell is \<open>None\<close>. Then the loop breaks at \<open>row\<close>, and what
  \<open>load_excel\<close> returns is made of the rows collected from \<open>before\<close> alone, whatever
  the rows \<open>later\<close> are.
\<close>

theorem scan_ends_at_empty_anchor:
  assumes "prepare re_match w file sheet zero_cell skip_rows take_cols =
             Inr (test_cell, test_cols, before @ row # later)"
    and "scan test_cell test_cols (initial zero_cell) before = Running st"
    and "read_immediately (locate test_cell st row)"
    and "index row (i_col (locate test_cell st row)) = Inr VNone"
  shows "scan test_cell test_cols (initial zero_cell) (before @ row # later) =
           Broke (locate test_cell st row)
         \<and> load_excel re_match w file sheet zero_cell skip_rows skip_foot take_cols =
           trim_foot (rows st) skip_foot"
proof -
  have "scan test_cell test_cols (initial zero_cell) (before @ row # later) =
        scan test_cell test_cols st (row # later)"
    using assms(2) by (rule scan_append)
  also have "\<dots> = Broke (locate test_cell st row)"
    using scan_row_empty_anchor [OF assms(3,4)] by simp
  finally have broke: "scan test_cell test_cols (initial zero_cell) (before @ row # later) =
      Broke (locate test_cell st row)" .
  then have "collect_rows test_cell test_cols (initial zero_cell) (before @ row # later) skip_foot =
      trim_foot (rows st) skip_foot"
    by (simp add: collect_rows_def rows_locate)
  with load_excel_collect [OF assms(1)] broke show ?thesis by simp
qed

text \<open>
  Claim C7 at the sheet \<open>Gap\<close>: the row of \<open>Bob\<close>, which follows the row with the empty
  first cell, is not in the result.
\<close>

theorem scan_ends_at_empty_anchor_witness:
  "load_excel (\<lambda>p t. False) demo_world SrcBytesIO (SheetStr ''Gap'') ZNone None None TNone =
     Inr [[VStr ''Name'', VStr ''Age''], [VStr ''Ann'', VStr ''30'']]"
proof -
  define st where "st = \<lparr>read_immediately = True, head_read = True, i_row = 2, i_col = 0,
    idxs = [0, 1], rows = [[VStr ''Name'', VStr ''Age''], [VStr ''Ann'', VStr ''30'']]\<rparr>"
  have prep: "prepare (\<lambda>p t. False) demo_world SrcBytesIO (SheetStr ''Gap'') ZNone None TNone =
      Inr (\<lambda>cell. True, \<lambda>col. Inr True,
           [[VStr ''Name'', VStr ''Age''], [VStr ''Ann'', VStr ''30'']]
           @ [VNone, VStr ''total''] # [[VStr ''Bob'', VStr ''40'']])"
    by (simp add: prepare_demo demo_book_def)
  have before: "scan (\<lambda>cell. True) (\<lambda>col. Inr True) (initial ZNone)
      [[VStr ''Name'', VStr ''Age''], [VStr ''Ann'', VStr ''30'']] = Running st"
    by (simp add: st_def initial_def scan_row_def locate_def index_def normalize_def strip_def
        is_space_def)
  have mode: "read_immediately (locate (\<lambda>cell. True) st [VNone, VStr ''total''])"
    by (simp add: st_def locate_def)
  have empty: "index [VNone, VStr ''total''] (i_col (locate (\<lambda>cell. True) st [VNone, VStr ''total''])) =
      Inr VNone"
    by (simp add: st_def locate_def index_def)
  from scan_ends_at_empty_anchor [OF prep before mode empty, of None]
  show ?thesis by (simp add: trim_foot_def st_def)
qed

section \<open>The header row and the data rows\<close>

lemma scan_row_broke: "scan_row test_cell test_cols st row = Broke st' \<Longrightarrow> rows st' = rows st"
  by (auto simp: scan_row_def Let_def rows_locate split: if_splits sum.splits)

lemma scan_row_data:
  assumes "head_read st" and "read_immediately st"
    and "scan_row test_cell test_cols st row = Running st'"
  shows "within (idxs st) row \<and> rows st' = rows st @ [cells_at (idxs st) row]
         \<and> idxs st' = idxs st \<and> head_read st' \<and> read_immediately st'"
  using assms
  by (auto simp: scan_row_def Let_def locate_read head_read_locate idxs_locate rows_locate
      traverse_index split: if_splits sum.splits)

lemma scan_row_header:
  assumes "\<not> head_read st"
    and "scan_row test_cell test_cols st row = Running st'"
  shows "(\<not> head_read st' \<and> rows st' = rows st)
         \<or> (head_read st' \<and> read_immediately st' \<and> within (idxs st') row
            \<and> (\<exists>hdr. traverse normalize (cells_at (idxs st') row) = Inr hdr
                     \<and> rows st' = rows st @ [hdr]))"
  using assms
  by (auto simp: scan_row_def Let_def head_read_locate rows_locate traverse_index
      split: if_splits sum.splits)

lemma scan_data_rows:
  assumes "head_read st" and "read_immediately st"
    and "scan test_cell test_cols st rs = Running st' \<or> scan test_cell test_cols st rs = Broke st'"
  shows "\<exists>drows post. rs = drows @ post \<and> list_all (within (idxs st)) drows
           \<and> rows st' = rows st @ map (cells_at (idxs st)) drows \<and> idxs st' = idxs st"
  using assms
proof (induction rs arbitrary: st)
  case Nil
  then show ?case by simp
next
  case (Cons r rs)
  show ?case
  proof (cases "scan_row test_cell test_cols st r")
    case (Raised e)
    with Cons.prems show ?thesis by simp
  next
    case (Broke st1)
    with Cons.prems have "st' = st1" by simp
    with Broke have "rows st' = rows st" and "idxs st' = idxs st"
      using Cons.prems(1,2)
      by (auto simp: scan_row_def Let_def rows_locate idxs_locate split: if_splits sum.splits)
    then have "r # rs = [] @ (r # rs) \<and> list_all (within (idxs st)) []
        \<and> rows st' = rows st @ map (cells_at (idxs st)) [] \<and> idxs st' = idxs st"
      by simp
    then show ?thesis by blast
  next
    case (Running st1)
    from scan_row_data [OF Cons.prems(1,2) Running]
    have step: "within (idxs st) r" "rows st1 = rows st @ [cells_at (idxs st) r]"
      "idxs st1 = idxs st" "head_read st1" "read_immediately st1"
      by simp_all
    from Cons.prems(3) Running
    have "scan test_cell test_cols st1 rs = Running st' \<or> scan test_cell test_cols st1 rs = Broke st'"
      by simp
    from Cons.IH [OF step(4,5) this]
    obtain drows post where rest: "rs = drows @ post" "list_all (within (idxs st1)) drows"
      "rows st' = rows st1 @ map (cells_at (idxs st1)) drows" "idxs st' = idxs st1"
      by blast
    with step have "r # rs = (r # drows) @ post \<and> list_all (within (idxs st)) (r # drows)
        \<and> rows st' = rows st @ map (cells_at (idxs st)) (r # drows) \<and> idxs st' = idxs st"
      by simp
    then show ?thesis by blast
  qed
qed

lemma scan_header_rows:
  assumes "\<not> head_read st" and "rows st = []"
    and "scan test_cell test_cols st rs = Running st' \<or> scan test_cell test_cols st rs = Broke st'"
  shows "rows st' = [] \<or>
         (\<exists>pre hrow drows post hdr. rs = pre @ hrow # drows @ post
            \<and> within (idxs st') hrow
            \<and> traverse normalize (cells_at (idxs st') hrow) = Inr hdr
            \<and> list_all (within (idxs st')) drows
            \<and> rows st' = hdr # map (cells_at (idxs st')) drows)"
  using assms
proof (induction rs arbitrary: st)
  case Nil
  then show ?case by simp
next
  case (Cons r rs)
  show ?case
  proof (cases "scan_row test_cell test_cols st r")
    case (Raised e)
    with Cons.prems show ?thesis by simp
  next
    case (Broke st1)
    with Cons.prems have "st' = st1" by simp
    with scan_row_broke [OF Broke] Cons.prems(2) show ?thesis by simp
  next
    case (Running st1)
    from Cons.prems(3) Running
    have rest: "scan test_cell test_cols st1 rs = Running st' \<or> scan test_cell test_cols st1 rs = Broke st'"
      by simp
    from scan_row_header [OF Cons.prems(1) Running]
    consider (skipped) "\<not> head_read st1" "rows st1 = rows st"
      | (header) hdr where "head_read st1" "read_immediately st1" "within (idxs st1) r"
          "traverse normalize (cells_at (idxs st1) r) = Inr hdr" "rows st1 = rows st @ [hdr]"
      by blast
    then show ?thesis
    proof cases
      case skipped
      with Cons.prems(2) have "rows st1 = []" by simp
      from Cons.IH [OF skipped(1) this rest]
      show ?thesis
      proof
        assume "rows st' = []"
        then show ?thesis by simp
      next
        assume "\<exists>pre hrow drows post hdr. rs = pre @ hrow # drows @ post
            \<and> within (idxs st') hrow
            \<and> traverse normalize (cells_at (idxs st') hrow) = Inr hdr
            \<and> list_all (within (idxs st')) drows
            \<and> rows st' = hdr # map (cells_at (idxs st')) drows"
        then obtain pre hrow drows post hdr where h: "rs = pre @ hrow # drows @ post"
            "within (idxs st') hrow"
            "traverse normalize (cells_at (idxs st') hrow) = Inr hdr"
            "list_all (within (idxs st')) drows"
            "rows st' = hdr # map (cells_at (idxs st')) drows"
          by blast
        then have "r # rs = (r # pre) @ hrow # drows @ post" by simp
        with h(2-5) show ?thesis by blast
      qed
    next
      case header
      from scan_data_rows [OF header(1,2) rest]
      obtain drows post where d: "rs = drows @ post" "list_all (within (idxs st1)) drows"
        "rows st' = rows st1 @ map (cells_at (idxs st1)) drows" "idxs st' = idxs st1"
        by blast
      with header Cons.prems(2)
      have "r # rs = [] @ r # drows @ post \<and> within (idxs st') r
            \<and> traverse normalize (cells_at (idxs st') r) = Inr hdr
            \<and> list_all (within (idxs st')) drows
            \<and> rows st' = hdr # map (cells_at (idxs st')) drows"
        by simp
      then show ?thesis by blast
    qed
  qed
qed

lemma trim_foot_take: "trim_foot rs skip_foot = Inr out \<Longrightarrow> \<exists>k. out = take k rs"
proof (cases skip_foot)
  case None
  assume "trim_foot rs skip_foot = Inr out"
  with None have "out = take (length rs) rs" by (simp add: trim_foot_def)
  then show ?thesis by blast
next
  case (Some n)
  assume "trim_foot rs skip_foot = Inr out"
  with Some have "out = slice_to rs n" by (simp add: trim_foot_def split: if_splits)
  then show ?thesis by (auto simp: slice_to_def)
qed

lemma list_all_take: "list_all P xs \<Longrightarrow> list_all P (take k xs)"
  by (auto simp: list_all_iff dest: in_set_takeD)

text \<open>
  Claim C9: white space is collapsed and trimmed in the selected fields of the header
  row only, and the values of every later row are handed to the writer as they were
  read. Whenever \<open>load_excel\<close> returns rows, the rows \<open>rs\<close> of the sheet split into
  rows passed over, a header row \<open>hrow\<close>, the data rows \<open>drows\<close> that follow it and a
  remainder; the first row returned is the normalized selection \<open>js\<close> of \<open>hrow\<close>, and
  every other row returned is the selection \<open>js\<close> of its data row, unchanged.
\<close>

theorem only_header_is_normalized:
  assumes "prepare re_match w file sheet zero_cell skip_rows take_cols =
             Inr (test_cell, test_cols, rs)"
    and "load_excel re_match w file sheet zero_cell skip_rows skip_foot take_cols = Inr out"
    and "out \<noteq> []"
  shows "\<exists>pre hrow drows post js hdr.
           rs = pre @ hrow # drows @ post
           \<and> within js hrow
           \<and> traverse normalize (cells_at js hrow) = Inr hdr
           \<and> list_all (within js) drows
           \<and> out = hdr # map (cells_at js) drows"
proof -
  from load_excel_collect [OF assms(1)] assms(2)
  have "collect_rows test_cell test_cols (initial zero_cell) rs skip_foot = Inr out"
    by simp
  then obtain st' where
    fin: "scan test_cell test_cols (initial zero_cell) rs = Running st'
          \<or> scan test_cell test_cols (initial zero_cell) rs = Broke st'"
    and trim: "trim_foot (rows st') skip_foot = Inr out"
    by (auto simp: collect_rows_def split: loop.splits)
  from trim_foot_take [OF trim] obtain k where k: "out = take k (rows st')"
    by blast
  with assms(3) have nonempty: "rows st' \<noteq> []"
    by auto
  have "\<not> head_read (initial zero_cell)" and "rows (initial zero_cell) = []"
    by (simp_all add: initial_def)
  from scan_header_rows [OF this fin] nonempty
  obtain pre hrow drows post hdr where h: "rs = pre @ hrow # drows @ post"
      "within (idxs st') hrow"
      "traverse normalize (cells_at (idxs st') hrow) = Inr hdr"
      "list_all (within (idxs st')) drows"
      "rows st' = hdr # map (cells_at (idxs st')) drows"
    by blast
  from k h(5) assms(3) obtain k' where k': "k = Suc k'"
    by (cases k) auto
  with k h(5) have out: "out = hdr # map (cells_at (idxs st')) (take k' drows)"
    by (simp add: take_map)
  have "rs = pre @ hrow # take k' drows @ (drop k' drows @ post)"
    using h(1) by simp
  moreover have "list_all (within (idxs st')) (take k' drows)"
    using h(4) by (rule list_all_take)
  ultimately show ?thesis
    using h(2,3) out by blast
qed

text \<open>
  Claim C9 at the sheet \<open>Spaces\<close>: the header fields lose their runs of white space,
  the data row keeps them.
\<close>

theorem only_header_is_normalized_witness:
  "load_excel (\<lambda>p t. False) demo_world SrcBytesIO (SheetStr ''Spaces'') ZNone None None TNone =
     Inr [[VStr ''Full Name'', VStr ''Age''], [VStr ''Ann   Lee'', VStr '' 30 '']]
   \<and> (\<exists>pre hrow drows post js hdr.
         [[VStr ''Full   Name'', VStr '' Age ''], [VStr ''Ann   Lee'', VStr '' 30 '']] =
           pre @ hrow # drows @ post
         \<and> within js hrow
         \<and> traverse normalize (cells_at js hrow) = Inr hdr
         \<and> list_all (within js) drows
         \<and> [[VStr ''Full Name'', VStr ''Age''], [VStr ''Ann   Lee'', VStr '' 30 '']] =
           hdr # map (cells_at js) drows)"
proof -
  have prep: "prepare (\<lambda>p t. False) demo_world SrcBytesIO (SheetStr ''Spaces'') ZNone None TNone =
      Inr (\<lambda>cell. True, \<lambda>col. Inr True,
           [[VStr ''Full   Name'', VStr '' Age ''], [VStr ''Ann   Lee'', VStr '' 30 '']])"
    by (simp add: prepare_demo demo_book_def)
  have res: "load_excel (\<lambda>p t. False) demo_world SrcBytesIO (SheetStr ''Spaces'') ZNone None None
      TNone = Inr [[VStr ''Full Name'', VStr ''Age''], [VStr ''Ann   Lee'', VStr '' 30 '']]"
    by (simp add: load_excel_def prep collect_rows_def initial_def scan_row_def locate_def
        index_def normalize_def strip_def is_space_def trim_foot_def)
  have "[[VStr ''Full Name'', VStr ''Age''], [VStr ''Ann   Lee'', VStr '' 30 '']] \<noteq> []"
    by simp
  from res only_header_is_normalized [OF prep res this] show ?thesis
    by (rule conjI)
qed

section \<open>Header cells that are no strings\<close>

lemma traverse_normalize_fails:
  "list_ex (\<lambda>v. \<not> is_str v) data \<Longrightarrow> traverse normalize data = Inl TypeError"
proof (induction data)
  case Nil
  then show ?case by simp
next
  case (Cons v data)
  then show ?case
    by (cases v) (auto simp: normalize_def is_str_def split: sum.splits)
qed

text \<open>
  The indices that line 145 selects start at the anchor column plus the position the
  enumeration starts from, and end before that sum plus the length of the row: with
  the anchor in the first column they lie within the row, and with the anchor further
  right they may not.
\<close>

lemma select_idxs_bounds:
  "select_idxs test_cols c i cells = Inr js \<Longrightarrow>
   list_all (\<lambda>j. c + i \<le> j \<and> j < c + i + length cells) js"
proof (induction cells arbitrary: i js)
  case Nil
  then show ?case by simp
next
  case (Cons cell cells)
  from Cons.prems obtain keep js' where
    sel: "select_idxs test_cols c (Suc i) cells = Inr js'"
    and js: "js = (if keep then (c + i) # js' else js')"
    by (auto split: sum.splits)
  from Cons.IH [OF sel]
  have "list_all (\<lambda>j. c + i \<le> j \<and> j < c + i + length (cell # cells)) js'"
    by (auto simp: list_all_iff)
  with js show ?case by simp
qed

lemma select_idxs_anchor0_within:
  "select_idxs test_cols 0 0 row = Inr js \<Longrightarrow> within js row"
  using select_idxs_bounds [of test_cols 0 0 row js] by (simp add: within_def)

text \<open>
  The normalization of the header row, when reading the selected cells has succeeded:
  \<open>row\<close> is the header row, met in data-collection mode in a state \<open>st\<close> where no
  header has been read; its anchor cell is not empty, the indices \<open>js\<close> selected in it
  lie within the row, and one of the selected cells holds a value that is no string.
  Then the \<open>TypeError\<close> of line 151 leaves \<open>load_excel\<close> as it is, not wrapped in one of
  the errors the function raises itself.
\<close>

lemma header_TypeError_when_within:
  assumes "prepare re_match w file sheet zero_cell skip_rows take_cols =
             Inr (test_cell, test_cols, before @ row # later)"
    and "scan test_cell test_cols (initial zero_cell) before = Running st"
    and "\<not> head_read st"
    and "read_immediately (locate test_cell st row)"
    and "index row (i_col (locate test_cell st row)) = Inr anchor"
    and "anchor \<noteq> VNone"
    and "select_idxs test_cols (i_col (locate test_cell st row)) 0 row = Inr js"
    and "within js row"
    and "list_ex (\<lambda>v. \<not> is_str v) (cells_at js row)"
  shows "load_excel re_match w file sheet zero_cell skip_rows skip_foot take_cols = Inl TypeError"
proof -
  have "traverse normalize (cells_at js row) = Inl TypeError"
    using assms(9) by (rule traverse_normalize_fails)
  then have "scan_row test_cell test_cols st row = Raised TypeError"
    using assms(3-8)
    by (simp add: scan_row_def Let_def head_read_locate traverse_index)
  then have "scan test_cell test_cols st (row # later) = Raised TypeError"
    by simp
  with scan_append [OF assms(2)]
  have "scan test_cell test_cols (initial zero_cell) (before @ row # later) = Raised TypeError"
    by simp
  then have "collect_rows test_cell test_cols (initial zero_cell) (before @ row # later) skip_foot =
      Inl TypeError"
    by (simp add: collect_rows_def)
  with load_excel_collect [OF assms(1)] show ?thesis by simp
qed

text \<open>
  The sheet \<open>Mixed\<close>, whose anchor is in the first column and whose header row holds an
  empty cell and a number.
\<close>

lemma header_TypeError_at_Mixed:
  "load_excel (\<lambda>p t. False) demo_world SrcBytesIO (SheetStr ''Mixed'') ZNone None None TNone =
     Inl TypeError"
proof -
  have prep: "prepare (\<lambda>p t. False) demo_world SrcBytesIO (SheetStr ''Mixed'') ZNone None TNone =
      Inr (\<lambda>cell. True, \<lambda>col. Inr True,
           [] @ [VStr ''Name'', VNone, VInt 2024] # [[VStr ''Ann'', VStr ''a'', VStr ''b'']])"
    by (simp add: prepare_demo demo_book_def)
  have before: "scan (\<lambda>cell. True) (\<lambda>col. Inr True) (initial ZNone) [] = Running (initial ZNone)"
    by simp
  have fresh: "\<not> head_read (initial ZNone)"
    by (simp add: initial_def)
  have mode: "read_immediately (locate (\<lambda>cell. True) (initial ZNone) [VStr ''Name'', VNone, VInt 2024])"
    by (simp add: initial_def locate_def)
  have anchor: "index [VStr ''Name'', VNone, VInt 2024]
      (i_col (locate (\<lambda>cell. True) (initial ZNone) [VStr ''Name'', VNone, VInt 2024])) =
      Inr (VStr ''Name'')"
    by (simp add: initial_def locate_def index_def)
  have filled: "VStr ''Name'' \<noteq> VNone"
    by simp
  have sel: "select_idxs (\<lambda>col. Inr True)
      (i_col (locate (\<lambda>cell. True) (initial ZNone) [VStr ''Name'', VNone, VInt 2024])) 0
      [VStr ''Name'', VNone, VInt 2024] = Inr [0, 1, 2]"
    by (simp add: initial_def locate_def)
  have inside: "within [0, 1, 2] [VStr ''Name'', VNone, VInt 2024]"
    by (simp add: within_def)
  have other: "list_ex (\<lambda>v. \<not> is_str v) (cells_at [0, 1, 2] [VStr ''Name'', VNone, VInt 2024])"
    by (simp add: cells_at_def is_str_def)
  from header_TypeError_when_within [OF prep before fresh mode anchor filled sel inside other]
  show ?thesis .
qed

text \<open>
  Claim C10 says that whenever the header row holds a value that is no string at a
  selected column index, \<open>load_excel\<close> raises a \<open>TypeError\<close> from the normalization. In
  the sheet \<open>Shifted\<close> the anchor \<open>Name\<close> is in the second column. Line 145 counts the
  positions from the first cell of the row and adds the anchor column to each, so the
  indices selected are 1, 2 and 3. The cell at index 2 holds a number, but index 3
  lies beyond the row: reading the selected cells (line 148) raises \<open>IndexError\<close>, and
  the normalization of line 151 with its \<open>TypeError\<close> is never reached.
\<close>

theorem shifted_header_raises_IndexError:
  "select_idxs (\<lambda>col. Inr True) 1 0 [VStr ''junk'', VStr ''Name'', VInt 2024] = Inr [1, 2, 3]
   \<and> index [VStr ''junk'', VStr ''Name'', VInt 2024] 2 = Inr (VInt 2024)
   \<and> load_excel (\<lambda>p t. False) demo_world SrcBytesIO (SheetStr ''Shifted'') (ZStr ''Name'') None None
        TNone = Inl IndexError"
  by (simp add: load_excel_def prepare_def check_file_def make_test_cell_def make_test_cols_def
      oxl_open_def demo_world_def demo_book_def resolve_sheet_def iter_rows_def collect_rows_def
      initial_def scan_row_def locate_def index_def)

end
